theory Spec2Isabelle
  imports Complex_Main "HOL-Library.Finite_Map"
begin

section \<open>Python floats\<close>

text \<open>
  A Python \<open>float\<close> is an IEEE-754 binary64 number, and \<open>+=\<close> and \<open>-=\<close> on the Gauge's
  accumulator are its addition and subtraction, rounded to nearest with ties to even.
  \<open>Finite s m e\<close> is the number \<open>(-1)\<^sup>s \<sqdot> m \<sqdot> 2\<^sup>e\<close>, written as the format stores it:
  \<open>0 \<le> m < 2\<^sup>5\<^sup>3\<close> and \<open>-1074 \<le> e \<le> 971\<close>, with \<open>2\<^sup>5\<^sup>2 \<le> m\<close> for a normal number and
  \<open>e = -1074\<close> for a subnormal one and for the two zeros \<open>Finite False 0 (-1074)\<close> and
  \<open>Finite True 0 (-1074)\<close>. So \<open>1.0\<close> is \<open>Finite False (2 ^ 52) (-52)\<close>.
\<close>

datatype pyfloat = Finite bool int int | Infinity bool | NaN

definition is_double :: "pyfloat \<Rightarrow> bool" where
  "is_double x =
     (case x of
        Finite s m e \<Rightarrow>
          0 \<le> m \<and> m < 2 ^ 53 \<and> - 1074 \<le> e \<and> e \<le> 971 \<and> (2 ^ 52 \<le> m \<or> e = - 1074)
      | Infinity s \<Rightarrow> True
      | NaN \<Rightarrow> True)"

text \<open>The real number a finite float stands for; an infinity and NaN stand for none.\<close>

definition float_val :: "pyfloat \<Rightarrow> real option" where
  "float_val x =
     (case x of
        Finite s m e \<Rightarrow>
          Some ((if s then - 1 else 1) * real_of_int m *
                (if 0 \<le> e then 2 ^ nat e else 1 / 2 ^ nat (- e)))
      | Infinity s \<Rightarrow> None
      | NaN \<Rightarrow> None)"

text \<open>The number of binary digits of a positive integer.\<close>

function bits :: "int \<Rightarrow> int" where
  "bits n = (if n \<le> 0 then 0 else 1 + bits (n div 2))"
  by pat_completeness auto
termination
  by (relation "measure nat") auto

declare bits.simps [simp del]

text \<open>
  \<open>round_to_double s M e\<close> rounds the exact number \<open>(-1)\<^sup>s \<sqdot> M \<sqdot> 2\<^sup>e\<close> (with \<open>M \<ge> 0\<close>) to the
  nearest double: the result keeps 53 binary digits of \<open>M\<close>, or fewer where the exponent
  would fall below \<open>-1074\<close>; the digits cut off round the last kept one to nearest, a tie
  to the even neighbour; a mantissa that rounds up to \<open>2\<^sup>5\<^sup>3\<close> moves to the next exponent;
  and an exponent beyond \<open>971\<close> gives the infinity of that sign.
\<close>

definition round_to_double :: "bool \<Rightarrow> int \<Rightarrow> int \<Rightarrow> pyfloat" where
  "round_to_double s M e =
     (if M = 0 then Finite s 0 (- 1074)
      else
        let e1 = max (e + bits M - 53) (- 1074);
            m = (if e1 \<le> e then M * 2 ^ nat (e - e1)
                 else
                   let q = M div 2 ^ nat (e1 - e);
                       r = M mod 2 ^ nat (e1 - e);
                       half = 2 ^ nat (e1 - e - 1)
                   in if half < r \<or> (r = half \<and> odd q) then q + 1 else q);
            m' = (if m = 2 ^ 53 then 2 ^ 52 else m);
            e' = (if m = 2 ^ 53 then e1 + 1 else e1)
        in if 971 < e' then Infinity s else Finite s m' e')"

text \<open>
  \<open>float.__add__\<close>: NaN is absorbing, infinities of opposite sign give NaN, and two
  finite numbers are added exactly and rounded once. An exact sum of zero is \<open>+0.0\<close>
  unless both operands are negative zeros. Python raises nothing here: an overflow gives
  an infinity.
\<close>

fun float_add :: "pyfloat \<Rightarrow> pyfloat \<Rightarrow> pyfloat" where
  "float_add NaN y = NaN"
| "float_add x NaN = NaN"
| "float_add (Infinity s) (Infinity t) = (if s = t then Infinity s else NaN)"
| "float_add (Infinity s) (Finite t m e) = Infinity s"
| "float_add (Finite s m e) (Infinity t) = Infinity t"
| "float_add (Finite s1 m1 e1) (Finite s2 m2 e2) =
     (let e0 = min e1 e2;
          M = (if s1 then - m1 else m1) * 2 ^ nat (e1 - e0)
            + (if s2 then - m2 else m2) * 2 ^ nat (e2 - e0)
      in if M = 0 then Finite (s1 \<and> s2) 0 (- 1074)
         else round_to_double (M < 0) \<bar>M\<bar> e0)"

fun float_neg :: "pyfloat \<Rightarrow> pyfloat" where
  "float_neg NaN = NaN"
| "float_neg (Infinity s) = Infinity (\<not> s)"
| "float_neg (Finite s m e) = Finite (\<not> s) m e"

text \<open>\<open>float.__sub__\<close>: \<open>x - y\<close> is \<open>x + (-y)\<close>.\<close>

definition float_sub :: "pyfloat \<Rightarrow> pyfloat \<Rightarrow> pyfloat" where
  "float_sub x y = float_add x (float_neg y)"

section \<open>Python values and exceptions\<close>

text \<open>
  The client is dynamically typed: \<open>send\<close> tests \<open>isinstance(labels, dict)\<close> and the
  constructor tests \<open>isinstance(help_string, str)\<close>, so the arguments those tests look at
  are values of any Python type. A \<open>dict\<close> has string keys, as the JSON body and the
  label mappings of this client have.
\<close>

datatype pyval =
    PyNone
  | PyBool bool
  | PyInt int
  | PyFloat pyfloat
  | PyStr string
  | PyList "pyval list"
  | PyTuple "pyval list"
  | PyDict "(string, pyval) fmap"

text \<open>
  The exceptions of \<open>errors.py\<close> and the built-in ones the client raises, each with its
  message. \<open>RequestException\<close> stands for whatever \<open>requests.post\<close> raises when the
  transport fails; the client does not catch it.
\<close>

datatype exn =
    ValueError string
  | TypeError string
  | NoLabelsError string
  | NotSortedError string
  | NotImplementedError string
  | RequestException string

fun isinstance_dict :: "pyval \<Rightarrow> bool" where
  "isinstance_dict (PyDict m) = True"
| "isinstance_dict v = False"

fun isinstance_str :: "pyval \<Rightarrow> bool" where
  "isinstance_str (PyStr s) = True"
| "isinstance_str v = False"

text \<open>The built-in \<open>len\<close>: defined on strings, lists, tuples and dicts, a \<open>TypeError\<close> elsewhere.\<close>

fun py_len :: "pyval \<Rightarrow> exn + int" where
  "py_len (PyStr s) = Inr (int (length s))"
| "py_len (PyList xs) = Inr (int (length xs))"
| "py_len (PyTuple xs) = Inr (int (length xs))"
| "py_len (PyDict m) = Inr (int (fcard (fmdom m)))"
| "py_len PyNone = Inl (TypeError ''object of type 'NoneType' has no len()'')"
| "py_len (PyBool b) = Inl (TypeError ''object of type 'bool' has no len()'')"
| "py_len (PyInt i) = Inl (TypeError ''object of type 'int' has no len()'')"
| "py_len (PyFloat x) = Inl (TypeError ''object of type 'float' has no len()'')"

section \<open>credentials.py\<close>

record Credentials =
  host :: string
  port :: string

definition Credentials_init :: "string \<Rightarrow> string \<Rightarrow> Credentials" where
  "Credentials_init h p = \<lparr>host = h, port = p\<rparr>"

definition address :: "Credentials \<Rightarrow> string" where
  "address self = ''http://'' @ host self @ '':'' @ port self"

section \<open>metric\_senders.py\<close>

subsection \<open>The HTTP side\<close>

text \<open>
  \<open>requests.post(url, json=body)\<close> is the only effect of the client. The requests issued
  so far are a list, extended at the end by every call; the far end is a function from a
  request to either the description of a transport failure or a response. The body is
  handed over as it is; an infinity or a NaN in it is written by the encoder's default as
  \<open>Infinity\<close> or \<open>NaN\<close> and sent like any other number.
\<close>

datatype http_request = Post string pyval

record response =
  status_code :: int
  content :: string

type_synonym transport = "http_request \<Rightarrow> string + response"

definition requests_post ::
  "transport \<Rightarrow> string \<Rightarrow> pyval \<Rightarrow> http_request list \<Rightarrow> (exn + response) \<times> http_request list" where
  "requests_post net u body sent =
     ((case net (Post u body) of Inl d \<Rightarrow> Inl (RequestException d) | Inr r \<Rightarrow> Inr r),
      sent @ [Post u body])"

subsection \<open>BasePushpromMetricSender\<close>

record BasePushpromMetricSender =
  url :: string
  metric_name :: pyval
  metric_type :: pyval
  "help" :: pyval

text \<open>
  \<open>__init__\<close>, statement by statement: the url is taken from the credentials, then the
  name is checked, the type tag is stored or replaced by \<open>"gauge"\<close>, then the help string
  is checked. An exception leaves no instance behind.
\<close>

definition BasePushpromMetricSender_init ::
  "Credentials \<Rightarrow> pyval \<Rightarrow> pyval \<Rightarrow> pyval \<Rightarrow> exn + BasePushpromMetricSender" where
  "BasePushpromMetricSender_init credentials name help_string mtype =
     (case py_len name of
        Inl e \<Rightarrow> Inl e
      | Inr n \<Rightarrow>
          if n > 0 then
            (let mt = (if mtype = PyStr ''counter'' \<or> mtype = PyStr ''gauge'' \<or>
                          mtype = PyStr ''histogram'' \<or> mtype = PyStr ''summary''
                       then mtype else PyStr ''gauge'')
             in if isinstance_str help_string
                then Inr \<lparr>url = address credentials, metric_name = name,
                          metric_type = mt, help = help_string\<rparr>
                else Inl (TypeError ''Field help should be str.''))
          else Inl (ValueError ''Field metric_name should not be empty!''))"

text \<open>
  \<open>send\<close> returns the outcome (an exception or the response), the sender after the call
  and the requests issued after the call. The first test is written as in the source:
  it raises when \<open>labels\<close> \<^emph>\<open>is\<close> a dict.
\<close>

definition send ::
  "transport \<Rightarrow> 'a BasePushpromMetricSender_scheme \<Rightarrow> pyval \<Rightarrow> pyval \<Rightarrow> http_request list \<Rightarrow>
     (exn + response) \<times> 'a BasePushpromMetricSender_scheme \<times> http_request list" where
  "send net self val labels sent =
     (if isinstance_dict labels
      then (Inl (NoLabelsError ''Can not send metrics: labels should be a type of dict.''), self, sent)
      else case py_len labels of
        Inl e \<Rightarrow> (Inl e, self, sent)
      | Inr n \<Rightarrow>
          if n < 1
          then (Inl (NoLabelsError ''Can not send metrics: no labels provided.''), self, sent)
          else
            (let json = PyDict (fmap_of_list
                   [(''type'', metric_type self),
                    (''name'', metric_name self),
                    (''help'', help self),
                    (''method'', PyStr ''add''),
                    (''value'', val),
                    (''labels'', labels)]);
                 (response, sent') = requests_post net (url self) json sent
             in (response, self, sent')))"

subsection \<open>Gauge\<close>

record Gauge = BasePushpromMetricSender +
  Gauge__counter :: pyfloat

definition Gauge_init :: "Credentials \<Rightarrow> pyval \<Rightarrow> pyval \<Rightarrow> exn + Gauge" where
  "Gauge_init credentials name help_string =
     (case BasePushpromMetricSender_init credentials name help_string (PyStr ''gauge'') of
        Inl e \<Rightarrow> Inl e
      | Inr b \<Rightarrow> Inr \<lparr>url = url b, metric_name = metric_name b, metric_type = metric_type b,
                     help = help b, Gauge__counter = Finite False 0 (- 1074)\<rparr>)"

definition Gauge_counter :: "Gauge \<Rightarrow> pyfloat" where
  "Gauge_counter self = Gauge__counter self"

definition increase_by :: "Gauge \<Rightarrow> pyfloat \<Rightarrow> Gauge" where
  "increase_by self v = self\<lparr>Gauge__counter := float_add (Gauge__counter self) v\<rparr>"

definition decrease_by :: "Gauge \<Rightarrow> pyfloat \<Rightarrow> Gauge" where
  "decrease_by self v = self\<lparr>Gauge__counter := float_sub (Gauge__counter self) v\<rparr>"

definition send_gauge ::
  "transport \<Rightarrow> Gauge \<Rightarrow> pyval \<Rightarrow> http_request list \<Rightarrow> (exn + response) \<times> Gauge \<times> http_request list" where
  "send_gauge net self labels sent = send net self (PyFloat (Gauge__counter self)) labels sent"

subsection \<open>Counter\<close>

record Counter = BasePushpromMetricSender +
  Counter__counter :: int

definition Counter_init :: "Credentials \<Rightarrow> pyval \<Rightarrow> pyval \<Rightarrow> exn + Counter" where
  "Counter_init credentials name help_string =
     (case BasePushpromMetricSender_init credentials name help_string (PyStr ''counter'') of
        Inl e \<Rightarrow> Inl e
      | Inr b \<Rightarrow> Inr \<lparr>url = url b, metric_name = metric_name b, metric_type = metric_type b,
                     help = help b, Counter__counter = 0\<rparr>)"

definition Counter_counter :: "Counter \<Rightarrow> int" where
  "Counter_counter self = Counter__counter self"

definition increase :: "Counter \<Rightarrow> Counter" where
  "increase self = self\<lparr>Counter__counter := Counter__counter self + 1\<rparr>"

definition reset :: "Counter \<Rightarrow> Counter" where
  "reset self = self\<lparr>Counter__counter := 0\<rparr>"

definition send_counter ::
  "transport \<Rightarrow> Counter \<Rightarrow> pyval \<Rightarrow> http_request list \<Rightarrow> (exn + response) \<times> Counter \<times> http_request list" where
  "send_counter net self labels sent = send net self (PyInt (Counter__counter self)) labels sent"

subsection \<open>Histogram and Summary\<close>

text \<open>
  Both constructors raise in their first statement; the statements after it (the call of
  the base constructor, the assignments of the sum, the count and the buckets) are never
  reached, whatever the arguments.
\<close>

record Histogram = BasePushpromMetricSender +
  Histogram__sum :: real
  Histogram__count :: int
  Histogram__buckets :: "(pyval \<times> int) list"

definition Histogram_init :: "Credentials \<Rightarrow> pyval \<Rightarrow> pyval \<Rightarrow> pyval \<Rightarrow> exn + Histogram" where
  "Histogram_init credentials name help_string buckets_bounds =
     Inl (NotImplementedError ''Kindly sorry: this class is not implemented yet.'')"

type_synonym Summary = BasePushpromMetricSender

definition Summary_init :: "Credentials \<Rightarrow> pyval \<Rightarrow> pyval \<Rightarrow> exn + Summary" where
  "Summary_init credentials name help_string =
     Inl (NotImplementedError ''Kindly sorry: this class is not implemented yet.'')"

section \<open>Credentials\<close>

text \<open>
  C9. For every host and port string, the address of \<open>Credentials(host, port)\<close> is
  \<open>"http://" + host + ":" + port\<close>, host and port are stored as given, and
  \<open>Credentials("localhost", "9091").address\<close> is \<open>"http://localhost:9091"\<close>.
\<close>

theorem address_format:
  "address (Credentials_init h p) = ''http://'' @ h @ '':'' @ p
   \<and> host (Credentials_init h p) = h
   \<and> port (Credentials_init h p) = p
   \<and> address (Credentials_init ''localhost'' ''9091'') = ''http://localhost:9091''"
  by (simp add: address_def Credentials_init_def)

section \<open>Construction\<close>

text \<open>The constructor on a name that is a string, as its annotation says.\<close>

lemma base_init_str:
  "BasePushpromMetricSender_init c (PyStr n) h t =
     (if n = [] then Inl (ValueError ''Field metric_name should not be empty!'')
      else if isinstance_str h
      then Inr \<lparr>url = address c, metric_name = PyStr n,
                metric_type = (if t = PyStr ''counter'' \<or> t = PyStr ''gauge'' \<or>
                                  t = PyStr ''histogram'' \<or> t = PyStr ''summary''
                               then t else PyStr ''gauge''),
                help = h\<rparr>
      else Inl (TypeError ''Field help should be str.''))"
  by (simp add: BasePushpromMetricSender_init_def Let_def)

text \<open>
  C4. Constructing a BasePushpromMetricSender, a Counter or a Gauge with a string as
  metric name raises a ValueError exactly when the name is empty; for a non-empty name it
  raises a TypeError exactly when the help string is not a string; and for a non-empty
  name and a string as help it succeeds.
\<close>

theorem init_raises_iff:
  "((\<exists>m. BasePushpromMetricSender_init c (PyStr n) h t = Inl (ValueError m)) \<longleftrightarrow> n = [])
   \<and> (n \<noteq> [] \<longrightarrow>
        ((\<exists>m. BasePushpromMetricSender_init c (PyStr n) h t = Inl (TypeError m))
           \<longleftrightarrow> \<not> isinstance_str h))
   \<and> (n \<noteq> [] \<and> isinstance_str h \<longrightarrow>
        (\<exists>s. BasePushpromMetricSender_init c (PyStr n) h t = Inr s))
   \<and> ((\<exists>m. Counter_init c (PyStr n) h = Inl (ValueError m)) \<longleftrightarrow> n = [])
   \<and> (n \<noteq> [] \<longrightarrow>
        ((\<exists>m. Counter_init c (PyStr n) h = Inl (TypeError m)) \<longleftrightarrow> \<not> isinstance_str h))
   \<and> (n \<noteq> [] \<and> isinstance_str h \<longrightarrow> (\<exists>s. Counter_init c (PyStr n) h = Inr s))
   \<and> ((\<exists>m. Gauge_init c (PyStr n) h = Inl (ValueError m)) \<longleftrightarrow> n = [])
   \<and> (n \<noteq> [] \<longrightarrow>
        ((\<exists>m. Gauge_init c (PyStr n) h = Inl (TypeError m)) \<longleftrightarrow> \<not> isinstance_str h))
   \<and> (n \<noteq> [] \<and> isinstance_str h \<longrightarrow> (\<exists>s. Gauge_init c (PyStr n) h = Inr s))"
  by (simp add: base_init_str Counter_init_def Gauge_init_def)

theorem init_raises_iff_witness:
  "(\<exists>m. BasePushpromMetricSender_init (Credentials_init ''localhost'' ''9091'')
          (PyStr ''hits'') (PyInt 3) (PyStr ''counter'') = Inl (TypeError m))
   \<and> (\<exists>s. BasePushpromMetricSender_init (Credentials_init ''localhost'' ''9091'')
          (PyStr ''hits'') (PyStr ''number of hits'') (PyStr ''counter'') = Inr s)
   \<and> (\<exists>m. BasePushpromMetricSender_init (Credentials_init ''localhost'' ''9091'')
          (PyStr []) (PyStr ''number of hits'') (PyStr ''counter'') = Inl (ValueError m))
   \<and> (\<exists>m. Counter_init (Credentials_init ''localhost'' ''9091'')
          (PyStr ''hits'') (PyInt 3) = Inl (TypeError m))
   \<and> (\<exists>s. Gauge_init (Credentials_init ''localhost'' ''9091'')
          (PyStr ''hits'') (PyStr ''number of hits'') = Inr s)"
  using
    init_raises_iff [of "Credentials_init ''localhost'' ''9091''" "''hits''" "PyInt 3"
      "PyStr ''counter''"]
    init_raises_iff [of "Credentials_init ''localhost'' ''9091''" "''hits''"
      "PyStr ''number of hits''" "PyStr ''counter''"]
    init_raises_iff [of "Credentials_init ''localhost'' ''9091''" "[]"
      "PyStr ''number of hits''" "PyStr ''counter''"]
  by simp

text \<open>
  C5. With a non-empty name and a string as help, a type tag that is a string other than
  "counter", "gauge", "histogram" and "summary" makes the construction succeed with
  metric type "gauge"; each of the four tags is stored as given.
\<close>

theorem metric_type_coerced:
  "(n \<noteq> [] \<and> t \<notin> {''counter'', ''gauge'', ''histogram'', ''summary''} \<longrightarrow>
      (\<exists>s. BasePushpromMetricSender_init c (PyStr n) (PyStr h) (PyStr t) = Inr s
           \<and> metric_type s = PyStr ''gauge''))
   \<and> (n \<noteq> [] \<and> t \<in> {''counter'', ''gauge'', ''histogram'', ''summary''} \<longrightarrow>
      (\<exists>s. BasePushpromMetricSender_init c (PyStr n) (PyStr h) (PyStr t) = Inr s
           \<and> metric_type s = PyStr t))"
  by (auto simp: base_init_str)

theorem metric_type_coerced_witness:
  "(\<exists>s. BasePushpromMetricSender_init (Credentials_init ''localhost'' ''9091'')
          (PyStr ''hits'') (PyStr ''number of hits'') (PyStr ''bogus'') = Inr s
        \<and> metric_type s = PyStr ''gauge'')
   \<and> (\<exists>s. BasePushpromMetricSender_init (Credentials_init ''localhost'' ''9091'')
          (PyStr ''hits'') (PyStr ''number of hits'') (PyStr ''summary'') = Inr s
        \<and> metric_type s = PyStr ''summary'')"
  using
    metric_type_coerced [of "''hits''" "''bogus''" "Credentials_init ''localhost'' ''9091''"
      "''number of hits''"]
    metric_type_coerced [of "''hits''" "''summary''" "Credentials_init ''localhost'' ''9091''"
      "''number of hits''"]
  by simp

text \<open>
  C8. Constructing a Histogram or a Summary raises NotImplementedError whatever the
  arguments are, so no instance of either is ever returned.
\<close>

theorem histogram_summary_not_implemented:
  "Histogram_init c n h b =
     Inl (NotImplementedError ''Kindly sorry: this class is not implemented yet.'')
   \<and> Summary_init c n h =
     Inl (NotImplementedError ''Kindly sorry: this class is not implemented yet.'')
   \<and> (\<nexists>i. Histogram_init c n h b = Inr i)
   \<and> (\<nexists>i. Summary_init c n h = Inr i)"
  by (simp add: Histogram_init_def Summary_init_def)

section \<open>The accumulators\<close>

lemma increase_funpow:
  "Counter_counter ((increase ^^ N) x) = Counter_counter x + int N"
  by (induction N) (simp_all add: increase_def Counter_counter_def)

text \<open>
  C6. A freshly constructed Counter has counter 0; after N calls of \<open>increase\<close> its
  counter is N; and \<open>reset\<close>, on a Counter in any state, makes the counter 0.
\<close>

theorem counter_counts:
  "Counter_init c n h = Inr fresh \<Longrightarrow>
     Counter_counter fresh = 0
     \<and> Counter_counter ((increase ^^ N) fresh) = int N
     \<and> Counter_counter (reset x) = 0"
proof -
  assume "Counter_init c n h = Inr fresh"
  then have zero: "Counter_counter fresh = 0"
    by (auto simp: Counter_init_def Counter_counter_def split: sum.splits)
  have "Counter_counter (reset x) = 0"
    by (simp add: reset_def Counter_counter_def)
  with zero show ?thesis
    by (simp add: increase_funpow)
qed

theorem counter_counts_witness:
  "Counter_init (Credentials_init ''localhost'' ''9091'') (PyStr ''hits'')
       (PyStr ''number of hits'') =
     Inr \<lparr>url = ''http://localhost:9091'', metric_name = PyStr ''hits'',
          metric_type = PyStr ''counter'', help = PyStr ''number of hits'',
          Counter__counter = 0\<rparr>
   \<and> Counter_counter ((increase ^^ 3)
       \<lparr>url = ''http://localhost:9091'', metric_name = PyStr ''hits'',
        metric_type = PyStr ''counter'', help = PyStr ''number of hits'',
        Counter__counter = 0\<rparr>) = 3
   \<and> Counter_counter (reset ((increase ^^ 3)
       \<lparr>url = ''http://localhost:9091'', metric_name = PyStr ''hits'',
        metric_type = PyStr ''counter'', help = PyStr ''number of hits'',
        Counter__counter = 0\<rparr>)) = 0"
proof -
  have made:
    "Counter_init (Credentials_init ''localhost'' ''9091'') (PyStr ''hits'')
       (PyStr ''number of hits'') =
     Inr \<lparr>url = ''http://localhost:9091'', metric_name = PyStr ''hits'',
          metric_type = PyStr ''counter'', help = PyStr ''number of hits'',
          Counter__counter = 0\<rparr>"
    by (simp add: Counter_init_def base_init_str address_def Credentials_init_def)
  from made counter_counts [OF made, of 3] show ?thesis by simp
qed

subsection \<open>Float arithmetic on concrete numbers\<close>

text \<open>The digits of a numeral are counted along its binary representation.\<close>

lemma bits_numeral:
  "bits 0 = 0"
  "bits 1 = 1"
  "bits (numeral (Num.Bit0 k)) = 1 + bits (numeral k)"
  "bits (numeral (Num.Bit1 k)) = 1 + bits (numeral k)"
proof -
  show "bits 0 = 0" by (simp add: bits.simps)
  show "bits 1 = 1" by (simp add: bits.simps [of 1] bits.simps [of 0])
  have "numeral (Num.Bit0 k) div (2::int) = numeral k" by simp
  then show "bits (numeral (Num.Bit0 k)) = 1 + bits (numeral k)"
    by (subst bits.simps) simp
  have "numeral (Num.Bit1 k) div (2::int) = numeral k" by simp
  then show "bits (numeral (Num.Bit1 k)) = 1 + bits (numeral k)"
    by (subst bits.simps) simp
qed

text \<open>
  The doubles of the example: \<open>0.0\<close>, \<open>3.5 = 7 \<sqdot> 2\<^sup>-\<^sup>1\<close>, \<open>1.0\<close> and \<open>2.5 = 5 \<sqdot> 2\<^sup>-\<^sup>1\<close>, each in
  the form the format stores.
\<close>

lemma double_literals:
  "is_double (Finite False 0 (- 1074)) \<and> float_val (Finite False 0 (- 1074)) = Some 0"
  "is_double (Finite False (7 * 2 ^ 50) (- 51))
     \<and> float_val (Finite False (7 * 2 ^ 50) (- 51)) = Some 3.5"
  "is_double (Finite False (2 ^ 52) (- 52)) \<and> float_val (Finite False (2 ^ 52) (- 52)) = Some 1"
  "is_double (Finite False (5 * 2 ^ 50) (- 51))
     \<and> float_val (Finite False (5 * 2 ^ 50) (- 51)) = Some 2.5"
  by (simp_all add: is_double_def float_val_def)

lemma zero_plus_3_5:
  "float_add (Finite False 0 (- 1074)) (Finite False (7 * 2 ^ 50) (- 51)) =
     Finite False (7 * 2 ^ 50) (- 51)"
  by (simp add: round_to_double_def Let_def bits_numeral)

lemma minus_1_0_from_3_5:
  "float_sub (Finite False (7 * 2 ^ 50) (- 51)) (Finite False (2 ^ 52) (- 52)) =
     Finite False (5 * 2 ^ 50) (- 51)"
  by (simp add: float_sub_def round_to_double_def Let_def bits_numeral)

text \<open>
  The addition rounds, overflows and propagates NaN as the hardware does:
  \<open>2\<^sup>5\<^sup>3 + 1.0\<close> is \<open>2\<^sup>5\<^sup>3\<close>; \<open>0.1 + 0.2\<close> is \<open>0.30000000000000004\<close> (mantissa
  \<open>5404319552844596\<close>, where \<open>0.3\<close> has \<open>5404319552844595\<close>); \<open>1e308 + 1e308\<close> is
  \<open>inf\<close>; \<open>inf - inf\<close> is NaN; \<open>1.0 - 1.0\<close> is \<open>+0.0\<close> and \<open>-0.0 + -0.0\<close> is \<open>-0.0\<close>.
\<close>

lemma float_add_rounds:
  "float_add (Finite False (2 ^ 52) 1) (Finite False (2 ^ 52) (- 52)) = Finite False (2 ^ 52) 1"
  "float_add (Finite False 7205759403792794 (- 56)) (Finite False 7205759403792794 (- 55)) =
     Finite False 5404319552844596 (- 54)"
  "float_add (Finite False 5010420900022432 971) (Finite False 5010420900022432 971) =
     Infinity False"
  "float_sub (Infinity False) (Infinity False) = NaN"
  "float_sub (Finite False (2 ^ 52) (- 52)) (Finite False (2 ^ 52) (- 52)) =
     Finite False 0 (- 1074)"
  "float_add (Finite True 0 (- 1074)) (Finite True 0 (- 1074)) = Finite True 0 (- 1074)"
  by (simp_all add: float_sub_def round_to_double_def Let_def bits_numeral)

text \<open>
  C7. A freshly constructed Gauge has counter \<open>0.0\<close>; \<open>increase_by v\<close> turns the
  accumulator x into the float sum \<open>x + v\<close> and \<open>decrease_by v\<close> turns it into the float
  difference \<open>x - v\<close>; so \<open>increase_by(3.5)\<close> and then \<open>decrease_by(1.0)\<close> on a fresh Gauge
  give the double \<open>2.5\<close>.
\<close>

theorem gauge_accumulates:
  "Gauge_init c n h = Inr fresh \<Longrightarrow>
     Gauge_counter fresh = Finite False 0 (- 1074)
     \<and> Gauge_counter (increase_by x v) = float_add (Gauge_counter x) v
     \<and> Gauge_counter (decrease_by x v) = float_sub (Gauge_counter x) v
     \<and> Gauge_counter
         (decrease_by (increase_by fresh (Finite False (7 * 2 ^ 50) (- 51)))
            (Finite False (2 ^ 52) (- 52))) = Finite False (5 * 2 ^ 50) (- 51)
     \<and> float_val (Finite False (7 * 2 ^ 50) (- 51)) = Some 3.5
     \<and> float_val (Finite False (2 ^ 52) (- 52)) = Some 1.0
     \<and> float_val (Gauge_counter
         (decrease_by (increase_by fresh (Finite False (7 * 2 ^ 50) (- 51)))
            (Finite False (2 ^ 52) (- 52)))) = Some 2.5"
proof -
  assume "Gauge_init c n h = Inr fresh"
  then have zero: "Gauge__counter fresh = Finite False 0 (- 1074)"
    by (auto simp: Gauge_init_def split: sum.splits)
  have step: "Gauge_counter (increase_by x v) = float_add (Gauge_counter x) v"
    "Gauge_counter (decrease_by x v) = float_sub (Gauge_counter x) v" for x v
    by (simp_all add: Gauge_counter_def increase_by_def decrease_by_def)
  have fresh0: "Gauge_counter fresh = Finite False 0 (- 1074)"
    using zero by (simp add: Gauge_counter_def)
  have result:
    "Gauge_counter
       (decrease_by (increase_by fresh (Finite False (7 * 2 ^ 50) (- 51)))
          (Finite False (2 ^ 52) (- 52))) = Finite False (5 * 2 ^ 50) (- 51)"
    by (simp only: step fresh0 zero_plus_3_5 minus_1_0_from_3_5)
  show ?thesis
    using step fresh0 result double_literals by simp
qed

theorem gauge_accumulates_witness:
  "Gauge_init (Credentials_init ''localhost'' ''9091'') (PyStr ''load'')
       (PyStr ''current load'') =
     Inr \<lparr>url = ''http://localhost:9091'', metric_name = PyStr ''load'',
          metric_type = PyStr ''gauge'', help = PyStr ''current load'',
          Gauge__counter = Finite False 0 (- 1074)\<rparr>
   \<and> Gauge_counter (decrease_by (increase_by
       \<lparr>url = ''http://localhost:9091'', metric_name = PyStr ''load'',
        metric_type = PyStr ''gauge'', help = PyStr ''current load'',
        Gauge__counter = Finite False 0 (- 1074)\<rparr>
       (Finite False (7 * 2 ^ 50) (- 51))) (Finite False (2 ^ 52) (- 52))) =
     Finite False (5 * 2 ^ 50) (- 51)"
proof -
  have made:
    "Gauge_init (Credentials_init ''localhost'' ''9091'') (PyStr ''load'')
       (PyStr ''current load'') =
     Inr \<lparr>url = ''http://localhost:9091'', metric_name = PyStr ''load'',
          metric_type = PyStr ''gauge'', help = PyStr ''current load'',
          Gauge__counter = Finite False 0 (- 1074)\<rparr>"
    by (simp add: Gauge_init_def base_init_str address_def Credentials_init_def)
  from made gauge_accumulates [OF made] show ?thesis by blast
qed

section \<open>Sending\<close>

text \<open>Whatever dict is passed as labels, the first test of \<open>send\<close> raises.\<close>

lemma send_dict:
  "send net self val (PyDict m) sent =
     (Inl (NoLabelsError ''Can not send metrics: labels should be a type of dict.''), self, sent)"
  by (simp add: send_def)

text \<open>
  C1 says that \<open>send\<close> with a non-empty mapping as labels raises nothing and issues one
  POST. The code does not: for every sender, every value and every dict with at least one
  entry, \<open>send\<close> raises NoLabelsError and issues no request; so it does for a counter
  sender at \<open>send(1.0, {"path": "/index"})\<close>.
\<close>

theorem send_nonempty_dict_rejected:
  "send net self val (PyDict (fmupd k v m)) sent =
     (Inl (NoLabelsError ''Can not send metrics: labels should be a type of dict.''), self, sent)
   \<and> send net
        \<lparr>url = ''http://localhost:9091'', metric_name = PyStr ''hits'',
         metric_type = PyStr ''counter'', help = PyStr ''number of hits''\<rparr>
        (PyFloat (Finite False (2 ^ 52) (- 52)))
        (PyDict (fmap_of_list [(''path'', PyStr ''/index'')])) [] =
     (Inl (NoLabelsError ''Can not send metrics: labels should be a type of dict.''),
      \<lparr>url = ''http://localhost:9091'', metric_name = PyStr ''hits'',
         metric_type = PyStr ''counter'', help = PyStr ''number of hits''\<rparr>, [])"
  by (simp add: send_dict)

text \<open>
  C2 says that \<open>send\<close> with labels that are not a dict raises NoLabelsError. The code does
  not: a non-empty list as labels passes both tests, one POST carrying the list as
  \<open>labels\<close> is issued and the outcome of the request is returned; an int as labels makes
  \<open>len\<close> raise a TypeError.
\<close>

theorem send_list_labels_posted:
  "(let body = PyDict (fmap_of_list
                 [(''type'', metric_type self), (''name'', metric_name self),
                  (''help'', help self), (''method'', PyStr ''add''),
                  (''value'', val), (''labels'', PyList (x # xs))])
    in send net self val (PyList (x # xs)) sent =
         ((case net (Post (url self) body) of
             Inl d \<Rightarrow> Inl (RequestException d) | Inr r \<Rightarrow> Inr r),
          self, sent @ [Post (url self) body]))
   \<and> send net self val (PyInt n) sent =
       (Inl (TypeError ''object of type 'int' has no len()''), self, sent)"
  by (simp add: send_def requests_post_def Let_def)

text \<open>
  C3. With the empty dict as labels, \<open>send\<close>, \<open>send_counter\<close> and \<open>send_gauge\<close> raise
  NoLabelsError, whatever the value and the sender are.
\<close>

theorem send_empty_labels_raises:
  "fst (send net self val (PyDict fmempty) sent) =
     Inl (NoLabelsError ''Can not send metrics: labels should be a type of dict.'')
   \<and> fst (send_counter net c (PyDict fmempty) sent) =
     Inl (NoLabelsError ''Can not send metrics: labels should be a type of dict.'')
   \<and> fst (send_gauge net g (PyDict fmempty) sent) =
     Inl (NoLabelsError ''Can not send metrics: labels should be a type of dict.'')"
  by (simp add: send_dict send_counter_def send_gauge_def)

text \<open>The request itself never raises NoLabelsError, and \<open>send\<close> never assigns to the sender.\<close>

lemma requests_post_not_NoLabelsError:
  "fst (requests_post net u body sent) \<noteq> Inl (NoLabelsError msg)"
  by (simp add: requests_post_def split: sum.splits)

lemma send_self_unchanged: "fst (snd (send net self val labels sent)) = self"
  by (simp add: send_def Let_def split: sum.splits prod.splits)

lemma send_NoLabelsError_no_request:
  assumes "fst (send net self val labels sent) = Inl (NoLabelsError msg)"
  shows "snd (snd (send net self val labels sent)) = sent"
proof (cases "isinstance_dict labels")
  case True
  then show ?thesis by (simp add: send_def)
next
  case False
  show ?thesis
  proof (cases "py_len labels")
    case (Inl e)
    with False show ?thesis by (simp add: send_def)
  next
    case (Inr n)
    show ?thesis
    proof (cases "n < 1")
      case True
      with False Inr show ?thesis by (simp add: send_def)
    next
      case nonempty: False
      with False Inr assms have
        "fst (requests_post net (url self)
           (PyDict (fmap_of_list
              [(''type'', metric_type self), (''name'', metric_name self),
               (''help'', help self), (''method'', PyStr ''add''),
               (''value'', val), (''labels'', labels)])) sent) = Inl (NoLabelsError msg)"
        by (simp add: send_def Let_def split: prod.splits)
      then show ?thesis
        using requests_post_not_NoLabelsError by blast
    qed
  qed
qed

lemma send_NoLabelsError_unchanged:
  "fst (send net self val labels sent) = Inl (NoLabelsError msg) \<Longrightarrow>
     snd (send net self val labels sent) = (self, sent)"
  using send_self_unchanged [of net self val labels sent]
    send_NoLabelsError_no_request [of net self val labels sent msg]
  by (simp add: prod_eq_iff)

text \<open>
  C10. Whenever \<open>send\<close>, \<open>send_counter\<close> or \<open>send_gauge\<close> raises NoLabelsError, no request
  has been issued by the call and the sender (url, name, type, help and accumulator) is
  as it was before the call.
\<close>

theorem NoLabelsError_before_request:
  "(fst (send net self val labels sent) = Inl (NoLabelsError msg) \<longrightarrow>
      snd (send net self val labels sent) = (self, sent))
   \<and> (fst (send_counter net c labels sent) = Inl (NoLabelsError msg) \<longrightarrow>
      snd (send_counter net c labels sent) = (c, sent))
   \<and> (fst (send_gauge net g labels sent) = Inl (NoLabelsError msg) \<longrightarrow>
      snd (send_gauge net g labels sent) = (g, sent))"
  by (simp add: send_counter_def send_gauge_def send_NoLabelsError_unchanged)

theorem NoLabelsError_before_request_witness:
  "fst (send (\<lambda>q. Inr \<lparr>status_code = 200, content = ''ok''\<rparr>)
          \<lparr>url = ''http://localhost:9091'', metric_name = PyStr ''hits'',
           metric_type = PyStr ''gauge'', help = PyStr ''number of hits''\<rparr>
          (PyInt 7) (PyList []) []) =
     Inl (NoLabelsError ''Can not send metrics: no labels provided.'')
   \<and> snd (send (\<lambda>q. Inr \<lparr>status_code = 200, content = ''ok''\<rparr>)
          \<lparr>url = ''http://localhost:9091'', metric_name = PyStr ''hits'',
           metric_type = PyStr ''gauge'', help = PyStr ''number of hits''\<rparr>
          (PyInt 7) (PyList []) []) =
     (\<lparr>url = ''http://localhost:9091'', metric_name = PyStr ''hits'',
           metric_type = PyStr ''gauge'', help = PyStr ''number of hits''\<rparr>, [])"
proof -
  have raised:
    "fst (send (\<lambda>q. Inr \<lparr>status_code = 200, content = ''ok''\<rparr>)
          \<lparr>url = ''http://localhost:9091'', metric_name = PyStr ''hits'',
           metric_type = PyStr ''gauge'', help = PyStr ''number of hits''\<rparr>
          (PyInt 7) (PyList []) []) =
     Inl (NoLabelsError ''Can not send metrics: no labels provided.'')"
    by (simp add: send_def)
  from raised NoLabelsError_before_request
    [of "\<lambda>q. Inr \<lparr>status_code = 200, content = ''ok''\<rparr>"
        "\<lparr>url = ''http://localhost:9091'', metric_name = PyStr ''hits'',
          metric_type = PyStr ''gauge'', help = PyStr ''number of hits''\<rparr>"
        "PyInt 7" "PyList []" "[]" "''Can not send metrics: no labels provided.''"]
  show ?thesis by blast
qed

end
